theory Spec2Isabelle
  imports Main
begin

section \<open>The AI assistant service facade (client/src/services/aiAssistant.js)\<close>

text \<open>
  The module exports one object, \<open>aiAssistantApi\<close>, with seven arrow functions. Each
  function builds its arguments for one method of the HTTP client imported from
  \<open>./api\<close> and returns what that method returns. The HTTP client is not part of the
  module: it is a parameter of every definition below.
\<close>

subsection \<open>JavaScript values\<close>

text \<open>
  What an entry of a \<open>FormData\<close> object holds: a \<open>File\<close>, or a string.
\<close>

datatype 'f form_value = FileValue 'f | StringValue string

text \<open>
  The values the module handles. It tests a value only for being \<open>undefined\<close> (default
  parameters) and otherwise passes values on, so numbers, booleans and references to
  objects it never looks into are kept abstract (\<open>Other\<close>). A symbol is given by its
  description. An object literal is the list of its own properties in the order they
  are written; a \<open>FormData\<close> object is the list of its entries.
\<close>

datatype ('a, 'f) jsval =
    Undefined
  | Null
  | Str string
  | Symbol string
  | Other 'a
  | File 'f
  | Obj "(string \<times> ('a, 'f) jsval) list"
  | Form "(string \<times> 'f form_value) list"

text \<open>
  A function called with fewer arguments than it has parameters sees \<open>undefined\<close> in
  the missing ones; arguments beyond the parameters are ignored.
\<close>

definition arg :: "('a, 'f) jsval list \<Rightarrow> nat \<Rightarrow> ('a, 'f) jsval" where
  "arg args i = (if i < length args then args ! i else Undefined)"

text \<open>A parameter written \<open>p = d\<close> takes the default when the argument is \<open>undefined\<close>.\<close>

definition default_param :: "('a, 'f) jsval \<Rightarrow> ('a, 'f) jsval \<Rightarrow> ('a, 'f) jsval" where
  "default_param v d = (if v = Undefined then d else v)"

subsection \<open>The platform's \<open>FormData\<close>\<close>

text \<open>
  What a function throws instead of returning: the platform's \<open>TypeError\<close>, or a value
  thrown by code that belongs to an argument.
\<close>

datatype 'x thrown = TypeError | Thrown 'x

text \<open>
  \<open>formData.append(name, value)\<close> stores a \<open>File\<close> as it is. Any other value the
  platform turns into the entry it stores: for an object this runs the object's own
  \<open>toString\<close> or \<open>valueOf\<close>, code that can throw and can read and change anything; for
  a symbol it throws a \<open>TypeError\<close>. What the platform does with a value that is
  neither a \<open>File\<close> nor a symbol is a parameter of the model, a function of the value
  and the state that gives the entry or what is thrown, and the new state.
\<close>

type_synonym ('a, 'f, 'x, 'st) conversion =
  "('a, 'f) jsval \<Rightarrow> 'st \<Rightarrow> ('x thrown + 'f form_value) \<times> 'st"

text \<open>\<open>new FormData()\<close> and \<open>formData.append(name, value)\<close>.\<close>

definition FormData_new :: "(string \<times> 'f form_value) list" where
  "FormData_new = []"

definition FormData_append ::
  "('a, 'f, 'x, 'st) conversion \<Rightarrow> (string \<times> 'f form_value) list \<Rightarrow> string
     \<Rightarrow> ('a, 'f) jsval \<Rightarrow> 'st \<Rightarrow> ('x thrown + (string \<times> 'f form_value) list) \<times> 'st" where
  "FormData_append convert entries name v st =
     (case v of
        File f \<Rightarrow> (Inr (entries @ [(name, FileValue f)]), st)
      | Symbol d \<Rightarrow> (Inl TypeError, st)
      | _ \<Rightarrow>
          (case convert v st of
             (Inl x, st') \<Rightarrow> (Inl x, st')
           | (Inr e, st') \<Rightarrow> (Inr (entries @ [(name, e)]), st')))"

subsection \<open>The transport collaborator\<close>

text \<open>
  A pending result, by how it settles. The state \<open>'st\<close> stands for everything a call
  can read or change: the client's configuration, the network and the server, and the
  objects that argument values refer to.
\<close>

datatype ('e, 'r) pending = Fulfilled 'r | Rejected 'e

type_synonym ('e, 'r, 'st) action = "'st \<Rightarrow> ('e, 'r) pending \<times> 'st"

text \<open>
  An invocation of an operation returns a pending result (\<open>Inr\<close>) or throws (\<open>Inl\<close>).
\<close>

type_synonym ('x, 'e, 'r, 'st) invocation =
  "'st \<Rightarrow> ('x thrown + ('e, 'r) pending) \<times> 'st"

record ('a, 'f, 'e, 'r, 'st) transport =
  get :: "('a, 'f) jsval list \<Rightarrow> ('e, 'r, 'st) action"
  post :: "('a, 'f) jsval list \<Rightarrow> ('e, 'r, 'st) action"
  delete :: "('a, 'f) jsval list \<Rightarrow> ('e, 'r, 'st) action"

subsection \<open>The seven operations\<close>

definition sendMessage ::
  "('a, 'f, 'e, 'r, 'st) transport \<Rightarrow> ('a, 'f) jsval list \<Rightarrow> ('e, 'r, 'st) action" where
  "sendMessage api args =
     (let sessionId = arg args 0;
          userQuery = arg args 1;
          subject = arg args 2;
          learnerType = default_param (arg args 3) (Str ''medium'')
      in post api [Str ''/services/chat'', Null,
           Obj [(''params'',
             Obj [(''session_id'', sessionId),
                  (''user_query'', userQuery),
                  (''subject'', subject),
                  (''learner_type'', learnerType)])]])"

definition getSessions ::
  "('a, 'f, 'e, 'r, 'st) transport \<Rightarrow> ('a, 'f) jsval list \<Rightarrow> ('e, 'r, 'st) action" where
  "getSessions api args = get api [Str ''/services/sessions'']"

definition createSession ::
  "('a, 'f, 'e, 'r, 'st) transport \<Rightarrow> ('a, 'f) jsval list \<Rightarrow> ('e, 'r, 'st) action" where
  "createSession api args =
     (let userId = arg args 0
      in post api [Str ''/services/session/create'', Null,
           Obj [(''params'', Obj [(''user_id'', userId)])]])"

definition deleteSession ::
  "('a, 'f, 'e, 'r, 'st) transport \<Rightarrow> ('a, 'f) jsval list \<Rightarrow> ('e, 'r, 'st) action" where
  "deleteSession api args =
     (let userId = arg args 0;
          sessionId = arg args 1
      in delete api [Str ''/services/session/delete'',
           Obj [(''params'',
             Obj [(''user_id'', userId),
                  (''session_id'', sessionId)])]])"

definition getRecommendations ::
  "('a, 'f, 'e, 'r, 'st) transport \<Rightarrow> ('a, 'f) jsval list \<Rightarrow> ('e, 'r, 'st) action" where
  "getRecommendations api args =
     (let subject = arg args 0;
          learnerType = default_param (arg args 1) (Str ''medium'')
      in post api [Str ''/services/recommendations'', Null,
           Obj [(''params'',
             Obj [(''subject'', subject),
                  (''learner_type'', learnerType)])]])"

definition getAutocompleteSuggestions ::
  "('a, 'f, 'e, 'r, 'st) transport \<Rightarrow> ('a, 'f) jsval list \<Rightarrow> ('e, 'r, 'st) action" where
  "getAutocompleteSuggestions api args =
     (let userQueryPartial = arg args 0;
          subject = arg args 1
      in post api [Str ''/services/autocomplete'', Null,
           Obj [(''params'',
             Obj [(''user_query_partial'', userQueryPartial),
                  (''subject'', subject)])]])"

text \<open>
  \<open>uploadTextbook\<close> appends to the form before it calls \<open>post\<close>: when the append
  throws, the operation throws and \<open>post\<close> is not called.
\<close>

definition uploadTextbook ::
  "('a, 'f, 'x, 'st) conversion \<Rightarrow> ('a, 'f, 'e, 'r, 'st) transport \<Rightarrow> ('a, 'f) jsval list
     \<Rightarrow> ('x, 'e, 'r, 'st) invocation" where
  "uploadTextbook convert api args st =
     (let file = arg args 0;
          formData = FormData_new
      in case FormData_append convert formData ''file'' file st of
           (Inl x, st1) \<Rightarrow> (Inl x, st1)
         | (Inr formData, st1) \<Rightarrow>
             (case post api [Str ''/services/upload'', Form formData,
                     Obj [(''headers'',
                       Obj [(''Content-Type'', Str ''multipart/form-data'')])]] st1 of
                (p, st2) \<Rightarrow> (Inr p, st2)))"

text \<open>The exported object: a property name selects one of the functions.\<close>

datatype operation =
    SendMessage
  | GetSessions
  | CreateSession
  | DeleteSession
  | GetRecommendations
  | GetAutocompleteSuggestions
  | UploadTextbook

definition returned :: "('e, 'r) pending \<times> 'st \<Rightarrow> ('x thrown + ('e, 'r) pending) \<times> 'st" where
  "returned out = (Inr (fst out), snd out)"

fun aiAssistantApi ::
  "('a, 'f, 'x, 'st) conversion \<Rightarrow> ('a, 'f, 'e, 'r, 'st) transport \<Rightarrow> operation
     \<Rightarrow> ('a, 'f) jsval list \<Rightarrow> ('x, 'e, 'r, 'st) invocation" where
  "aiAssistantApi convert api SendMessage args st = returned (sendMessage api args st)"
| "aiAssistantApi convert api GetSessions args st = returned (getSessions api args st)"
| "aiAssistantApi convert api CreateSession args st = returned (createSession api args st)"
| "aiAssistantApi convert api DeleteSession args st = returned (deleteSession api args st)"
| "aiAssistantApi convert api GetRecommendations args st =
     returned (getRecommendations api args st)"
| "aiAssistantApi convert api GetAutocompleteSuggestions args st =
     returned (getAutocompleteSuggestions api args st)"
| "aiAssistantApi convert api UploadTextbook args st = uploadTextbook convert api args st"

subsection \<open>Observing the calls an operation makes\<close>

datatype http_method = GET | POST | DELETE

text \<open>One call on the collaborator: the method called and the arguments passed to it.\<close>

type_synonym ('a, 'f) call = "http_method \<times> ('a, 'f) jsval list"

fun perform ::
  "('a, 'f, 'e, 'r, 'st) transport \<Rightarrow> ('a, 'f) call \<Rightarrow> ('e, 'r, 'st) action" where
  "perform api (GET, args) = get api args"
| "perform api (POST, args) = post api args"
| "perform api (DELETE, args) = delete api args"

text \<open>
  A collaborator that behaves as \<open>api\<close> does and also appends every call made on it,
  with the pending result the call returned, to a log kept beside the state.
\<close>

type_synonym ('a, 'f, 'e, 'r) log = "(('a, 'f) call \<times> ('e, 'r) pending) list"

definition recording ::
  "('a, 'f, 'e, 'r, 'st) transport
     \<Rightarrow> ('a, 'f, 'e, 'r, 'st \<times> ('a, 'f, 'e, 'r) log) transport" where
  "recording api =
     \<lparr> get = (\<lambda>args (st, log).
          case get api args st of (p, st') \<Rightarrow> (p, (st', log @ [((GET, args), p)]))),
       post = (\<lambda>args (st, log).
          case post api args st of (p, st') \<Rightarrow> (p, (st', log @ [((POST, args), p)]))),
       delete = (\<lambda>args (st, log).
          case delete api args st of (p, st') \<Rightarrow> (p, (st', log @ [((DELETE, args), p)]))) \<rparr>"

text \<open>The calls in the log that a run on a recording collaborator leaves.\<close>

definition calls :: "'res \<times> 'st \<times> ('a, 'f, 'e, 'r) log \<Rightarrow> ('a, 'f) call list" where
  "calls out = map fst (snd (snd out))"

text \<open>A conversion, on a state that has the log beside it: it leaves the log alone.\<close>

definition observed ::
  "('a, 'f, 'x, 'st) conversion \<Rightarrow> ('a, 'f, 'x, 'st \<times> ('a, 'f, 'e, 'r) log) conversion" where
  "observed convert =
     (\<lambda>v (st, log). case convert v st of (res, st') \<Rightarrow> (res, (st', log)))"

text \<open>
  Three collaborators to run the operations on: one without state that fulfils every
  call with the same value, one that rejects every call with the error it is given, and
  one that counts the calls made on it and fulfils each call with the count before it.
\<close>

definition probe :: "('a, 'f, unit, unit, unit) transport" where
  "probe =
     \<lparr> get = (\<lambda>args st. (Fulfilled (), st)),
       post = (\<lambda>args st. (Fulfilled (), st)),
       delete = (\<lambda>args st. (Fulfilled (), st)) \<rparr>"


definition counting :: "('a, 'f, unit, nat, nat) transport" where
  "counting =
     \<lparr> get = (\<lambda>args n. (Fulfilled n, Suc n)),
       post = (\<lambda>args n. (Fulfilled n, Suc n)),
       delete = (\<lambda>args n. (Fulfilled n, Suc n)) \<rparr>"

text \<open>
  Two conversions to run \<open>uploadTextbook\<close> with: one that gives every value the same
  string and changes nothing, as the platform does for a plain object, and one for a
  value whose own \<open>toString\<close> counts its calls in the state.
\<close>

definition plain_object :: "('a, 'f, 'x, 'st) conversion" where
  "plain_object = (\<lambda>v st. (Inr (StringValue ''[object Object]''), st))"

definition counting_toString :: "('a, 'f, 'x, nat) conversion" where
  "counting_toString = (\<lambda>v n. (Inr (StringValue ''textbook''), Suc n))"

text \<open>
  An invocation in which \<open>FormData.append\<close> converts no value: one of any operation
  but \<open>uploadTextbook\<close>, or one of \<open>uploadTextbook\<close> on a \<open>File\<close>.
\<close>

fun converts_nothing :: "operation \<Rightarrow> ('a, 'f) jsval list \<Rightarrow> bool" where
  "converts_nothing UploadTextbook args = (case arg args 0 of File f \<Rightarrow> True | _ \<Rightarrow> False)"
| "converts_nothing op args = True"

text \<open>
  The calls an operation makes for given arguments, taken from a run on the recorded
  probe from an empty log.
\<close>

definition requests :: "operation \<Rightarrow> ('a, 'f) jsval list \<Rightarrow> ('a, 'f) call list" where
  "requests op args =
     calls (aiAssistantApi (observed (plain_object :: ('a, 'f, unit, unit) conversion))
       (recording probe) op args ((), []))"

text \<open>
  The number of leading parameters an operation declares without a default value.
\<close>

fun mandatory_arguments :: "operation \<Rightarrow> nat" where
  "mandatory_arguments SendMessage = 3"
| "mandatory_arguments GetSessions = 0"
| "mandatory_arguments CreateSession = 1"
| "mandatory_arguments DeleteSession = 2"
| "mandatory_arguments GetRecommendations = 1"
| "mandatory_arguments GetAutocompleteSuggestions = 2"
| "mandatory_arguments UploadTextbook = 1"

subsection \<open>Reading a call as a request descriptor\<close>

text \<open>
  Modelled from the spec: the HTTP client module \<open>./api\<close>, which is missing. The spec
  gives its interface as \<open>get(path, config)\<close>, \<open>post(path, body, config)\<close> and
  \<open>delete(path, config)\<close>, where \<open>config\<close> carries the query parameters (property
  \<open>params\<close>) and the headers (property \<open>headers\<close>). The functions below read the
  fields of a request descriptor off a call along that interface.
\<close>

definition call_method :: "('a, 'f) call \<Rightarrow> http_method" where
  "call_method c = fst c"

definition call_path :: "('a, 'f) call \<Rightarrow> ('a, 'f) jsval" where
  "call_path c = arg (snd c) 0"

definition call_body :: "('a, 'f) call \<Rightarrow> ('a, 'f) jsval" where
  "call_body c = (case fst c of POST \<Rightarrow> arg (snd c) 1 | _ \<Rightarrow> Undefined)"

definition call_config :: "('a, 'f) call \<Rightarrow> ('a, 'f) jsval" where
  "call_config c = (case fst c of POST \<Rightarrow> arg (snd c) 2 | _ \<Rightarrow> arg (snd c) 1)"

text \<open>The own properties of a value, and reading one property (absent: \<open>undefined\<close>).\<close>

fun properties :: "('a, 'f) jsval \<Rightarrow> (string \<rightharpoonup> ('a, 'f) jsval)" where
  "properties (Obj ps) = map_of ps"
| "properties v = Map.empty"

definition property :: "('a, 'f) jsval \<Rightarrow> string \<Rightarrow> ('a, 'f) jsval" where
  "property v k = (case properties v k of Some x \<Rightarrow> x | None \<Rightarrow> Undefined)"

definition call_params :: "('a, 'f) call \<Rightarrow> (string \<rightharpoonup> ('a, 'f) jsval)" where
  "call_params c = properties (property (call_config c) ''params'')"

definition call_headers :: "('a, 'f) call \<Rightarrow> (string \<rightharpoonup> ('a, 'f) jsval)" where
  "call_headers c = properties (property (call_config c) ''headers'')"

text \<open>
  Modelled from the spec: the query parameters that the table of section 6 lists for
  each operation.
\<close>

fun required_parameters :: "operation \<Rightarrow> string list" where
  "required_parameters SendMessage =
     [''session_id'', ''user_query'', ''subject'', ''learner_type'']"
| "required_parameters GetSessions = []"
| "required_parameters CreateSession = [''user_id'']"
| "required_parameters DeleteSession = [''user_id'', ''session_id'']"
| "required_parameters GetRecommendations = [''subject'', ''learner_type'']"
| "required_parameters GetAutocompleteSuggestions = [''user_query_partial'', ''subject'']"
| "required_parameters UploadTextbook = []"

section \<open>Properties\<close>

subsection \<open>The calls an invocation makes\<close>

lemmas operation_defs =
  sendMessage_def getSessions_def createSession_def deleteSession_def
  getRecommendations_def getAutocompleteSuggestions_def uploadTextbook_def

lemma recording_simps:
  "get (recording api) args (st, log) =
     (case get api args st of (p, st') \<Rightarrow> (p, (st', log @ [((GET, args), p)])))"
  "post (recording api) args (st, log) =
     (case post api args st of (p, st') \<Rightarrow> (p, (st', log @ [((POST, args), p)])))"
  "delete (recording api) args (st, log) =
     (case delete api args st of (p, st') \<Rightarrow> (p, (st', log @ [((DELETE, args), p)])))"
  by (simp_all add: recording_def)

lemma observed_simp:
  "observed convert v (st, log) = (case convert v st of (res, st') \<Rightarrow> (res, (st', log)))"
  by (simp add: observed_def)

lemmas run_defs =
  calls_def operation_defs recording_simps Let_def

lemmas descriptor_defs =
  call_method_def call_path_def call_params_def call_headers_def call_body_def
  call_config_def property_def arg_def default_param_def

lemma perform_recording:
  "perform (recording api) c (st, log) =
     (case perform api c st of (p, st') \<Rightarrow> (p, (st', log @ [(c, p)])))"
  by (cases c, cases "fst c") (simp_all add: recording_simps)

lemma uploadTextbook_File:
  "arg args 0 = File f \<Longrightarrow>
     uploadTextbook convert api args st =
       returned (post api [Str ''/services/upload'', Form [(''file'', FileValue f)],
         Obj [(''headers'', Obj [(''Content-Type'', Str ''multipart/form-data'')])]] st)"
  by (simp add: uploadTextbook_def FormData_new_def FormData_append_def returned_def
      split: prod.splits)

lemma facade_is_one_call:
  assumes "converts_nothing op args"
  shows "\<exists>c. requests op args = [c] \<and>
           aiAssistantApi convert api op args st = returned (perform api c st)"
proof (cases op)
  case UploadTextbook
  with assms obtain f where f: "arg args 0 = File f"
    by (auto split: jsval.splits)
  have "requests UploadTextbook args =
      [(POST, [Str ''/services/upload'', Form [(''file'', FileValue f)],
         Obj [(''headers'', Obj [(''Content-Type'', Str ''multipart/form-data'')])]])]"
    by (simp add: requests_def uploadTextbook_File [OF f] returned_def calls_def
        recording_simps probe_def)
  with UploadTextbook f show ?thesis
    by (simp add: uploadTextbook_File)
qed (simp_all add: requests_def run_defs probe_def returned_def)

lemma facade_recorded:
  assumes "converts_nothing op args"
  shows "\<exists>c. requests op args = [c] \<and>
       aiAssistantApi convert api op args st = returned (perform api c st) \<and>
       aiAssistantApi convert' (recording api) op args (st, log) =
         (case perform api c st of (p, st') \<Rightarrow> (Inr p, (st', log @ [(c, p)])))"
proof -
  obtain c where c: "requests op args = [c]"
    and plain: "aiAssistantApi convert api op args st = returned (perform api c st)"
    using facade_is_one_call [OF assms, of convert api st] by blast
  obtain c' where c': "requests op args = [c']"
    and rec: "aiAssistantApi convert' (recording api) op args (st, log)
        = returned (perform (recording api) c' (st, log))"
    using facade_is_one_call [OF assms, of convert' "recording api" "(st, log)"] by blast
  from c c' have "c' = c" by simp
  with rec have "aiAssistantApi convert' (recording api) op args (st, log) =
      (case perform api c st of (p, st') \<Rightarrow> (Inr p, (st', log @ [(c, p)])))"
    by (simp add: perform_recording returned_def split: prod.splits)
  with c plain show ?thesis by simp
qed

lemma calls_recorded:
  assumes "converts_nothing op args"
  shows "calls (aiAssistantApi convert (recording api) op args (st, log))
      = map fst log @ requests op args"
proof -
  obtain c where "requests op args = [c]"
    and "aiAssistantApi convert (recording api) op args (st, log) =
         (case perform api c st of (p, st') \<Rightarrow> (Inr p, (st', log @ [(c, p)])))"
    using facade_recorded [OF assms, where convert' = convert and api = api and st = st
        and log = log]
    by blast
  then show ?thesis by (simp add: calls_def split: prod.splits)
qed

lemma FormData_append_run:
  "(\<exists>x st1. FormData_append convert entries name v st = (Inl x, st1)
       \<and> FormData_append (observed convert) entries name v (st, log) = (Inl x, st1, log))
   \<or> (\<exists>e st1. FormData_append convert entries name v st = (Inr (entries @ [(name, e)]), st1)
       \<and> FormData_append (observed convert) entries name v (st, log)
           = (Inr (entries @ [(name, e)]), st1, log))"
proof -
  obtain res st1 where conv: "convert v st = (res, st1)"
    by (cases "convert v st")
  then show ?thesis
    by (cases v; cases res) (simp_all add: FormData_append_def observed_simp)
qed

lemma uploadTextbook_run:
  "(\<exists>x st1. uploadTextbook convert api args st = (Inl x, st1)
       \<and> uploadTextbook (observed convert) (recording api) args (st, log) = (Inl x, st1, log))
   \<or> (\<exists>entries st1 p st2.
         post api [Str ''/services/upload'', Form entries,
           Obj [(''headers'', Obj [(''Content-Type'', Str ''multipart/form-data'')])]] st1
           = (p, st2)
       \<and> uploadTextbook convert api args st = (Inr p, st2)
       \<and> uploadTextbook (observed convert) (recording api) args (st, log)
           = (Inr p, st2, log @ [((POST, [Str ''/services/upload'', Form entries,
               Obj [(''headers'', Obj [(''Content-Type'', Str ''multipart/form-data'')])]]),
               p)]))"
proof -
  consider
    (throws) x st1 where
      "FormData_append convert FormData_new ''file'' (arg args 0) st = (Inl x, st1)"
      "FormData_append (observed convert) FormData_new ''file'' (arg args 0) (st, log)
         = (Inl x, st1, log)"
  | (appends) e st1 where
      "FormData_append convert FormData_new ''file'' (arg args 0) st
         = (Inr (FormData_new @ [(''file'', e)]), st1)"
      "FormData_append (observed convert) FormData_new ''file'' (arg args 0) (st, log)
         = (Inr (FormData_new @ [(''file'', e)]), st1, log)"
    using FormData_append_run [of convert FormData_new "''file''" "arg args 0" st log]
    by blast
  then show ?thesis
  proof cases
    case throws
    then show ?thesis
      by (simp add: uploadTextbook_def)
  next
    case appends
    obtain p st2 where "post api [Str ''/services/upload'', Form (FormData_new @ [(''file'', e)]),
           Obj [(''headers'', Obj [(''Content-Type'', Str ''multipart/form-data'')])]] st1
           = (p, st2)"
      by (cases "post api [Str ''/services/upload'', Form (FormData_new @ [(''file'', e)]),
           Obj [(''headers'', Obj [(''Content-Type'', Str ''multipart/form-data'')])]] st1")
    with appends show ?thesis
      by (simp add: uploadTextbook_def recording_simps) blast
  qed
qed

text \<open>
  Any operation on any arguments: it throws before any call and leaves the log as it
  was, or it makes one call and returns the pending result of that call.
\<close>

lemma facade_run:
  "(\<exists>x st1. aiAssistantApi convert api op args st = (Inl x, st1)
       \<and> aiAssistantApi (observed convert) (recording api) op args (st, log)
           = (Inl x, st1, log))
   \<or> (\<exists>c st1 p st2. perform api c st1 = (p, st2)
       \<and> aiAssistantApi convert api op args st = (Inr p, st2)
       \<and> aiAssistantApi (observed convert) (recording api) op args (st, log)
           = (Inr p, st2, log @ [(c, p)]))"
proof (cases "converts_nothing op args")
  case True
  then obtain c where plain: "aiAssistantApi convert api op args st = returned (perform api c st)"
    and rec: "aiAssistantApi (observed convert) (recording api) op args (st, log) =
         (case perform api c st of (p, st') \<Rightarrow> (Inr p, (st', log @ [(c, p)])))"
    using facade_recorded [of op args convert api st "observed convert" log] by blast
  obtain p st2 where "perform api c st = (p, st2)"
    by (cases "perform api c st")
  with plain rec have "perform api c st = (p, st2)
       \<and> aiAssistantApi convert api op args st = (Inr p, st2)
       \<and> aiAssistantApi (observed convert) (recording api) op args (st, log)
           = (Inr p, st2, log @ [(c, p)])"
    by (simp add: returned_def)
  then show ?thesis by blast
next
  case False
  then have op: "op = UploadTextbook"
    by (cases op) simp_all
  from uploadTextbook_run [of convert api args st log] show ?thesis
  proof
    assume "\<exists>x st1. uploadTextbook convert api args st = (Inl x, st1)
       \<and> uploadTextbook (observed convert) (recording api) args (st, log) = (Inl x, st1, log)"
    with op show ?thesis by simp
  next
    assume "\<exists>entries st1 p st2.
         post api [Str ''/services/upload'', Form entries,
           Obj [(''headers'', Obj [(''Content-Type'', Str ''multipart/form-data'')])]] st1
           = (p, st2)
       \<and> uploadTextbook convert api args st = (Inr p, st2)
       \<and> uploadTextbook (observed convert) (recording api) args (st, log)
           = (Inr p, st2, log @ [((POST, [Str ''/services/upload'', Form entries,
               Obj [(''headers'', Obj [(''Content-Type'', Str ''multipart/form-data'')])]]),
               p)])"
    then obtain entries st1 p st2 where
      "perform api (POST, [Str ''/services/upload'', Form entries,
           Obj [(''headers'', Obj [(''Content-Type'', Str ''multipart/form-data'')])]]) st1
           = (p, st2)
       \<and> uploadTextbook convert api args st = (Inr p, st2)
       \<and> uploadTextbook (observed convert) (recording api) args (st, log)
           = (Inr p, st2, log @ [((POST, [Str ''/services/upload'', Form entries,
               Obj [(''headers'', Obj [(''Content-Type'', Str ''multipart/form-data'')])]]),
               p)])"
      by auto
    with op show ?thesis by (simp del: perform.simps) blast
  qed
qed

lemma requests_explicit:
  "requests SendMessage args =
     [(POST, [Str ''/services/chat'', Null,
        Obj [(''params'',
          Obj [(''session_id'', arg args 0), (''user_query'', arg args 1),
               (''subject'', arg args 2),
               (''learner_type'', default_param (arg args 3) (Str ''medium''))])]])]"
  "requests GetSessions args = [(GET, [Str ''/services/sessions''])]"
  "requests CreateSession args =
     [(POST, [Str ''/services/session/create'', Null,
        Obj [(''params'', Obj [(''user_id'', arg args 0)])]])]"
  "requests DeleteSession args =
     [(DELETE, [Str ''/services/session/delete'',
        Obj [(''params'', Obj [(''user_id'', arg args 0), (''session_id'', arg args 1)])]])]"
  "requests GetRecommendations args =
     [(POST, [Str ''/services/recommendations'', Null,
        Obj [(''params'',
          Obj [(''subject'', arg args 0),
               (''learner_type'', default_param (arg args 1) (Str ''medium''))])]])]"
  "requests GetAutocompleteSuggestions args =
     [(POST, [Str ''/services/autocomplete'', Null,
        Obj [(''params'',
          Obj [(''user_query_partial'', arg args 0), (''subject'', arg args 1)])]])]"
  by (simp_all add: requests_def run_defs probe_def returned_def)

lemma params_explicit:
  "call_params (m, [p, Obj [(''params'', Obj ps)]]) = (if m = POST then Map.empty else map_of ps)"
  "call_params (POST, [p, b, Obj [(''params'', Obj ps)]]) = map_of ps"
  "call_params (POST, [p, b, Obj [(''headers'', h)]]) = Map.empty"
  "call_params (GET, [p]) = Map.empty"
  by (cases m; simp add: call_params_def call_config_def property_def arg_def)+

lemma uploadTextbook_calls:
  assumes "c \<in> set (calls (uploadTextbook (observed convert) (recording api) args (st, [])))"
  shows "\<exists>entries. c = (POST, [Str ''/services/upload'', Form entries,
           Obj [(''headers'', Obj [(''Content-Type'', Str ''multipart/form-data'')])]])"
  using assms uploadTextbook_run [of convert api args st "[]"]
  by (auto simp add: calls_def)

lemma one_call_when_nothing_converted:
  assumes "converts_nothing op args"
  shows "\<exists>c. calls (aiAssistantApi convert (recording api) op args (st, [])) = [c]"
  using facade_is_one_call [OF assms, of convert "recording api" "(st, [])"]
    calls_recorded [OF assms, of convert api st "[]"]
  by auto

text \<open>
  A conversion is where code of the argument's own runs: with a value whose
  \<open>toString\<close> counts its calls, \<open>uploadTextbook\<close> leaves the count at 2 after a single
  call on the collaborator that counts, and that call was the second step.
\<close>

lemma uploadTextbook_runs_conversion:
  "uploadTextbook (counting_toString :: (unit, unit, unit, nat) conversion) counting
     [Other ()] 0 = (Inr (Fulfilled 1), 2)"
  by (simp add: uploadTextbook_def FormData_new_def FormData_append_def counting_toString_def
      counting_def arg_def)

subsection \<open>The request each operation builds\<close>

text \<open>
  Claim C1, as stated: for every \<open>sessionId\<close>, \<open>userQuery\<close>, \<open>subject\<close> and
  \<open>learnerType\<close>, \<open>sendMessage\<close> sends \<open>learner_type: learnerType\<close>. It fails when
  \<open>learnerType\<close> is \<open>undefined\<close>: the default of the fourth parameter applies to an
  argument that is passed as \<open>undefined\<close> just as to one that is left out, and the
  request carries \<open>learner_type: "medium"\<close>.
\<close>

theorem sendMessage_undefined_learnerType:
  "call_params
     (hd (calls (sendMessage (recording probe)
        [Str ''s1'', Str ''hello'', Str ''math'', Undefined :: (unit, unit) jsval] ((), []))))
     ''learner_type'' = Some (Str ''medium'')
   \<and> call_params
     (hd (calls (sendMessage (recording probe)
        [Str ''s1'', Str ''hello'', Str ''math'', Undefined :: (unit, unit) jsval] ((), []))))
     ''learner_type'' \<noteq> Some Undefined"
  by (simp add: run_defs probe_def descriptor_defs)

text \<open>
  Claim C1, amended: on every collaborator and in every state,
  \<open>sendMessage(sessionId, userQuery, subject, learnerType)\<close> makes exactly one call, a
  POST to \<open>/services/chat\<close> with a null body, whose query parameters are exactly
  \<open>session_id: sessionId\<close>, \<open>user_query: userQuery\<close>, \<open>subject: subject\<close> and
  \<open>learner_type\<close>, which is \<open>learnerType\<close> unless \<open>learnerType\<close> is \<open>undefined\<close>, and
  \<open>"medium"\<close> when it is.
\<close>

theorem sendMessage_request:
  "\<exists>c. calls (sendMessage (recording api) [sessionId, userQuery, subject, learnerType] (st, []))
         = [c]
     \<and> call_method c = POST
     \<and> call_path c = Str ''/services/chat''
     \<and> call_params c =
         [''session_id'' \<mapsto> sessionId, ''user_query'' \<mapsto> userQuery, ''subject'' \<mapsto> subject,
          ''learner_type'' \<mapsto> (if learnerType = Undefined then Str ''medium'' else learnerType)]
     \<and> call_body c = Null"
proof -
  have "calls (sendMessage (recording api) [sessionId, userQuery, subject, learnerType] (st, []))
      = [(POST, [Str ''/services/chat'', Null,
          Obj [(''params'',
            Obj [(''session_id'', sessionId), (''user_query'', userQuery),
                 (''subject'', subject),
                 (''learner_type'', default_param learnerType (Str ''medium''))])]])]"
    by (simp add: run_defs arg_def split: prod.splits)
  then show ?thesis
    by (auto simp add: descriptor_defs fun_eq_iff)
qed

theorem sendMessage_request_witness:
  "\<exists>c. calls (sendMessage (recording counting)
          [Str ''s1'', Str ''hello'', Str ''math'', Str ''fast'' :: (unit, unit) jsval] (0, [])) = [c]
     \<and> call_method c = POST
     \<and> call_path c = Str ''/services/chat''
     \<and> call_params c =
         [''session_id'' \<mapsto> Str ''s1'', ''user_query'' \<mapsto> Str ''hello'',
          ''subject'' \<mapsto> Str ''math'', ''learner_type'' \<mapsto> Str ''fast'']
     \<and> call_body c = Null"
  using sendMessage_request [of counting "Str ''s1''" "Str ''hello''" "Str ''math''" "Str ''fast''" 0]
  by simp

text \<open>
  Claim C2: \<open>sendMessage(s, q, subj)\<close>, with the fourth argument left out, sends
  \<open>learner_type: "medium"\<close>, and so does \<open>getRecommendations(subj)\<close>, with the second
  argument left out.
\<close>

theorem learnerType_defaults_to_medium:
  "(\<exists>c. calls (sendMessage (recording api) [s, q, subj] (st, [])) = [c]
       \<and> call_params c ''learner_type'' = Some (Str ''medium''))
   \<and> (\<exists>c. calls (getRecommendations (recording api) [subj] (st, [])) = [c]
       \<and> call_params c ''learner_type'' = Some (Str ''medium''))"
proof
  show "\<exists>c. calls (sendMessage (recording api) [s, q, subj] (st, [])) = [c]
       \<and> call_params c ''learner_type'' = Some (Str ''medium'')"
    by (simp add: run_defs descriptor_defs split: prod.splits)
  show "\<exists>c. calls (getRecommendations (recording api) [subj] (st, [])) = [c]
       \<and> call_params c ''learner_type'' = Some (Str ''medium'')"
    by (simp add: run_defs descriptor_defs split: prod.splits)
qed

theorem learnerType_defaults_to_medium_witness:
  "call_params (hd (calls (sendMessage (recording probe)
      [Str ''s1'', Str ''hello'', Str ''math'' :: (unit, unit) jsval] ((), []))))
      ''learner_type'' = Some (Str ''medium'')
   \<and> call_params (hd (calls (getRecommendations (recording probe)
      [Str ''math'' :: (unit, unit) jsval] ((), []))))
      ''learner_type'' = Some (Str ''medium'')"
  using learnerType_defaults_to_medium
    [of probe "Str ''s1'' :: (unit, unit) jsval" "Str ''hello''" "Str ''math''" "()"]
  by auto

text \<open>
  Claim C3: whatever it is called with, \<open>getSessions\<close> makes one GET call to
  \<open>/services/sessions\<close> with no query parameters; \<open>createSession(userId)\<close> makes one
  POST call to \<open>/services/session/create\<close> whose query parameters are exactly
  \<open>user_id: userId\<close>; \<open>getAutocompleteSuggestions(p, s)\<close> makes one POST call to
  \<open>/services/autocomplete\<close> whose query parameters are exactly
  \<open>user_query_partial: p\<close> and \<open>subject: s\<close>.
\<close>

theorem getSessions_createSession_autocomplete_requests:
  "(\<exists>c. calls (getSessions (recording api) args (st, [])) = [c]
       \<and> call_method c = GET
       \<and> call_path c = Str ''/services/sessions''
       \<and> call_params c = Map.empty)
   \<and> (\<exists>c. calls (createSession (recording api) [userId] (st, [])) = [c]
       \<and> call_method c = POST
       \<and> call_path c = Str ''/services/session/create''
       \<and> call_params c = [''user_id'' \<mapsto> userId])
   \<and> (\<exists>c. calls (getAutocompleteSuggestions (recording api) [p, s] (st, [])) = [c]
       \<and> call_method c = POST
       \<and> call_path c = Str ''/services/autocomplete''
       \<and> call_params c = [''user_query_partial'' \<mapsto> p, ''subject'' \<mapsto> s])"
proof (intro conjI)
  have "calls (getSessions (recording api) args (st, [])) = [(GET, [Str ''/services/sessions''])]"
    by (simp add: run_defs split: prod.splits)
  then show "\<exists>c. calls (getSessions (recording api) args (st, [])) = [c]
       \<and> call_method c = GET
       \<and> call_path c = Str ''/services/sessions''
       \<and> call_params c = Map.empty"
    by (simp add: descriptor_defs)
next
  have "calls (createSession (recording api) [userId] (st, []))
      = [(POST, [Str ''/services/session/create'', Null,
           Obj [(''params'', Obj [(''user_id'', userId)])]])]"
    by (simp add: run_defs arg_def split: prod.splits)
  then show "\<exists>c. calls (createSession (recording api) [userId] (st, [])) = [c]
       \<and> call_method c = POST
       \<and> call_path c = Str ''/services/session/create''
       \<and> call_params c = [''user_id'' \<mapsto> userId]"
    by (simp add: descriptor_defs)
next
  have "calls (getAutocompleteSuggestions (recording api) [p, s] (st, []))
      = [(POST, [Str ''/services/autocomplete'', Null,
           Obj [(''params'', Obj [(''user_query_partial'', p), (''subject'', s)])]])]"
    by (simp add: run_defs arg_def split: prod.splits)
  then show "\<exists>c. calls (getAutocompleteSuggestions (recording api) [p, s] (st, [])) = [c]
       \<and> call_method c = POST
       \<and> call_path c = Str ''/services/autocomplete''
       \<and> call_params c = [''user_query_partial'' \<mapsto> p, ''subject'' \<mapsto> s]"
    by (auto simp add: descriptor_defs fun_eq_iff)
qed

theorem createSession_u1_witness:
  "calls (createSession (recording probe) [Str ''u1'' :: (unit, unit) jsval] ((), []))
     = [(POST, [Str ''/services/session/create'', Null,
          Obj [(''params'', Obj [(''user_id'', Str ''u1'')])]])]
   \<and> call_params (hd (calls (createSession (recording probe)
         [Str ''u1'' :: (unit, unit) jsval] ((), [])))) ''user_id'' = Some (Str ''u1'')"
  using getSessions_createSession_autocomplete_requests
    [of probe "[]" "()" "Str ''u1'' :: (unit, unit) jsval" "Str ''ph''" "Str ''math''"]
  by (auto simp add: run_defs probe_def arg_def)

text \<open>
  Claim C4: \<open>deleteSession(userId, sessionId)\<close> makes exactly one call, a DELETE to
  \<open>/services/session/delete\<close>, whose query parameters are exactly \<open>user_id: userId\<close>
  and \<open>session_id: sessionId\<close>.
\<close>

theorem deleteSession_request:
  "\<exists>c. calls (deleteSession (recording api) [userId, sessionId] (st, [])) = [c]
     \<and> call_method c = DELETE
     \<and> call_path c = Str ''/services/session/delete''
     \<and> call_params c = [''user_id'' \<mapsto> userId, ''session_id'' \<mapsto> sessionId]"
proof -
  have "calls (deleteSession (recording api) [userId, sessionId] (st, []))
      = [(DELETE, [Str ''/services/session/delete'',
           Obj [(''params'', Obj [(''user_id'', userId), (''session_id'', sessionId)])]])]"
    by (simp add: run_defs arg_def split: prod.splits)
  then show ?thesis
    by (auto simp add: descriptor_defs fun_eq_iff)
qed

theorem deleteSession_request_witness:
  "\<exists>c. calls (deleteSession (recording counting)
          [Str ''u1'', Str ''s7'' :: (unit, unit) jsval] (0, [])) = [c]
     \<and> call_method c = DELETE
     \<and> call_path c = Str ''/services/session/delete''
     \<and> call_params c = [''user_id'' \<mapsto> Str ''u1'', ''session_id'' \<mapsto> Str ''s7'']"
  using deleteSession_request [of counting "Str ''u1''" "Str ''s7''" 0]
  by simp

text \<open>
  Claim C5: for every file \<open>f\<close>, \<open>uploadTextbook(f)\<close> makes one POST call to
  \<open>/services/upload\<close> whose body is a form with exactly one entry, named \<open>file\<close>,
  holding \<open>f\<close>, and whose headers set \<open>Content-Type\<close> to \<open>multipart/form-data\<close>,
  whatever the platform does with values that are not files.
\<close>

theorem uploadTextbook_request:
  "\<exists>c. calls (uploadTextbook convert (recording api) [File f] (st, [])) = [c]
     \<and> call_method c = POST
     \<and> call_path c = Str ''/services/upload''
     \<and> call_body c = Form [(''file'', FileValue f)]
     \<and> call_headers c ''Content-Type'' = Some (Str ''multipart/form-data'')"
proof -
  have "uploadTextbook convert (recording api) [File f] (st, []) =
      returned (post (recording api) [Str ''/services/upload'', Form [(''file'', FileValue f)],
        Obj [(''headers'', Obj [(''Content-Type'', Str ''multipart/form-data'')])]] (st, []))"
    by (rule uploadTextbook_File) (simp add: arg_def)
  then have "calls (uploadTextbook convert (recording api) [File f] (st, []))
      = [(POST, [Str ''/services/upload'', Form [(''file'', FileValue f)],
           Obj [(''headers'', Obj [(''Content-Type'', Str ''multipart/form-data'')])]])]"
    by (simp add: returned_def calls_def recording_simps split: prod.splits)
  then show ?thesis
    by (simp add: descriptor_defs)
qed

theorem uploadTextbook_request_witness:
  "calls (uploadTextbook (observed (plain_object :: (unit, nat, unit, unit) conversion))
       (recording probe) [File (5::nat) :: (unit, nat) jsval] ((), []))
     = [(POST, [Str ''/services/upload'', Form [(''file'', FileValue 5)],
          Obj [(''headers'', Obj [(''Content-Type'', Str ''multipart/form-data'')])]])]"
  using uploadTextbook_request
    [of "observed (plain_object :: (unit, nat, unit, unit) conversion)" probe "5::nat" "()"]
  by (simp add: run_defs probe_def arg_def FormData_new_def FormData_append_def)

subsection \<open>Failures, effects and independence\<close>



text \<open>
  Claim C7, as stated: every operation makes exactly one call on the collaborator per
  invocation. It fails for \<open>uploadTextbook\<close> on a value that the platform cannot
  convert: \<open>formData.append\<close> runs before \<open>api.post\<close>, and for a symbol it throws a
  \<open>TypeError\<close>, so the invocation throws and no call is made. (For an object with a
  \<open>toString\<close> of its own the conversion runs that code, an effect outside the call.)
\<close>

theorem uploadTextbook_symbol_makes_no_call:
  "aiAssistantApi (observed (plain_object :: (unit, unit, unit, nat) conversion))
       (recording counting) UploadTextbook [Symbol ''s'' :: (unit, unit) jsval] (0, [])
     = (Inl TypeError, 0, [])
   \<and> calls (aiAssistantApi (observed (plain_object :: (unit, unit, unit, nat) conversion))
       (recording counting) UploadTextbook [Symbol ''s'' :: (unit, unit) jsval] (0, [])) = []"
  by (simp add: uploadTextbook_def FormData_new_def FormData_append_def arg_def calls_def)

text \<open>
  Claim C7, amended: an invocation that converts nothing (any operation but
  \<open>uploadTextbook\<close>, or \<open>uploadTextbook\<close> on a \<open>File\<close>) makes exactly one call \<open>c\<close> on
  the collaborator and returns exactly the pending result and the state that
  performing \<open>c\<close> in the starting state gives; the state stands for everything that
  can change (the objects the arguments refer to and the collaborator's configuration
  among it), so the operation changes nothing but through that one call. Every
  invocation, \<open>uploadTextbook\<close> on another value among them, throws and makes no call,
  or returns and has made exactly one call.
\<close>

theorem facade_single_call_no_other_effect:
  "(converts_nothing op args \<longrightarrow>
      (\<exists>c p st'. perform api c st = (p, st')
         \<and> aiAssistantApi convert api op args st = (Inr p, st')
         \<and> aiAssistantApi (observed convert) (recording api) op args (st, log)
             = (Inr p, (st', log @ [(c, p)]))))
   \<and> ((\<exists>x st1. aiAssistantApi (observed convert) (recording api) op args (st, log)
           = (Inl x, st1, log))
      \<or> (\<exists>c p st2. aiAssistantApi (observed convert) (recording api) op args (st, log)
           = (Inr p, st2, log @ [(c, p)])))"
proof
  show "converts_nothing op args \<longrightarrow>
      (\<exists>c p st'. perform api c st = (p, st')
         \<and> aiAssistantApi convert api op args st = (Inr p, st')
         \<and> aiAssistantApi (observed convert) (recording api) op args (st, log)
             = (Inr p, (st', log @ [(c, p)])))"
  proof
    assume "converts_nothing op args"
    then obtain c where plain: "aiAssistantApi convert api op args st
          = returned (perform api c st)"
      and rec: "aiAssistantApi (observed convert) (recording api) op args (st, log) =
           (case perform api c st of (q, st1) \<Rightarrow> (Inr q, (st1, log @ [(c, q)])))"
      using facade_recorded [of op args convert api st "observed convert" log] by blast
    obtain p st' where call: "perform api c st = (p, st')"
      by (cases "perform api c st")
    from plain rec call
    have "perform api c st = (p, st')
       \<and> aiAssistantApi convert api op args st = (Inr p, st')
       \<and> aiAssistantApi (observed convert) (recording api) op args (st, log)
           = (Inr p, (st', log @ [(c, p)]))"
      by (simp add: returned_def)
    then show "\<exists>c p st'. perform api c st = (p, st')
         \<and> aiAssistantApi convert api op args st = (Inr p, st')
         \<and> aiAssistantApi (observed convert) (recording api) op args (st, log)
             = (Inr p, (st', log @ [(c, p)]))"
      by blast
  qed
next
  from facade_run [of convert api op args st log]
  show "(\<exists>x st1. aiAssistantApi (observed convert) (recording api) op args (st, log)
           = (Inl x, st1, log))
      \<or> (\<exists>c p st2. aiAssistantApi (observed convert) (recording api) op args (st, log)
           = (Inr p, st2, log @ [(c, p)]))"
    by blast
qed

theorem facade_single_call_no_other_effect_witness:
  "converts_nothing DeleteSession [Str ''u1'', Str ''s7'' :: (unit, unit) jsval]
   \<and> aiAssistantApi (observed (plain_object :: (unit, unit, unit, nat) conversion))
       (recording counting) DeleteSession
       [Str ''u1'', Str ''s7'' :: (unit, unit) jsval] (4, [])
     = (Inr (Fulfilled 4), 5,
        [((DELETE, [Str ''/services/session/delete'',
            Obj [(''params'', Obj [(''user_id'', Str ''u1''), (''session_id'', Str ''s7'')])]]),
          Fulfilled 4)])"
  using facade_single_call_no_other_effect
    [of DeleteSession "[Str ''u1'', Str ''s7'' :: (unit, unit) jsval]" counting 4
      "plain_object :: (unit, unit, unit, nat) conversion" "[]"]
  by (simp add: run_defs counting_def arg_def returned_def)

text \<open>
  Claim C8, as stated: invoking an operation does not change the result that another
  operation produces. It fails on a collaborator whose answers depend on the calls
  made before: the operations return the collaborator's pending result as it is. On
  the collaborator that fulfils each call with the number of calls before it,
  \<open>getSessions()\<close> gives 0 when invoked first and 1 when invoked after
  \<open>createSession("u1")\<close>.
\<close>

theorem result_depends_on_earlier_call:
  "fst (getSessions counting ([] :: (unit, unit) jsval list) 0) = Fulfilled 0
   \<and> fst (getSessions counting ([] :: (unit, unit) jsval list)
          (snd (createSession counting [Str ''u1''] 0))) = Fulfilled 1
   \<and> fst (getSessions counting ([] :: (unit, unit) jsval list)
          (snd (createSession counting [Str ''u1''] 0)))
     \<noteq> fst (getSessions counting ([] :: (unit, unit) jsval list) 0)"
  by (simp add: operation_defs counting_def Let_def)

text \<open>
  Claim C8, amended: an operation keeps no state of its own. An invocation that
  converts nothing (any operation but \<open>uploadTextbook\<close>, or \<open>uploadTextbook\<close> on a
  \<open>File\<close>) builds the same request on every collaborator and in every state; made
  after any other invocation it builds the request it builds alone (the log is the
  earlier calls followed by that request); and the pending result it returns is the
  one the collaborator gives for that request in the state the collaborator is then
  in, so an earlier invocation can change it only through the collaborator.
\<close>

theorem facade_keeps_no_state:
  fixes api :: "('a, 'f, 'e, 'r, 'st) transport"
    and api' :: "('a, 'f, 'e2, 'r2, 'st2) transport"
    and convert :: "('a, 'f, 'x, 'st) conversion"
    and convert' :: "('a, 'f, 'x2, 'st2) conversion"
  assumes quiet: "converts_nothing op args"
  shows "calls (aiAssistantApi (observed convert) (recording api) op args (st, []))
      = calls (aiAssistantApi (observed convert') (recording api') op args (st', []))
    \<and> (case aiAssistantApi (observed convert) (recording api) op1 args1 (st, []) of
         (res1, st1, log1) \<Rightarrow>
           calls (aiAssistantApi (observed convert) (recording api) op args (st1, log1))
             = calls (res1, st1, log1)
               @ calls (aiAssistantApi (observed convert) (recording api) op args (st, []))
           \<and> (\<exists>c. calls (aiAssistantApi (observed convert) (recording api) op args (st, []))
                  = [c]
                \<and> fst (aiAssistantApi (observed convert) (recording api) op args (st1, log1))
                    = Inr (fst (perform api c st1))))"
proof
  show "calls (aiAssistantApi (observed convert) (recording api) op args (st, []))
      = calls (aiAssistantApi (observed convert') (recording api') op args (st', []))"
    using
      calls_recorded [OF quiet, where convert = "observed convert" and api = api
        and st = st and log = "[]"]
      calls_recorded [OF quiet, where convert = "observed convert'" and api = api'
        and st = st' and log = "[]"]
    by simp
next
  obtain res1 st1 log1 where first:
    "aiAssistantApi (observed convert) (recording api) op1 args1 (st, []) = (res1, st1, log1)"
    by (cases "aiAssistantApi (observed convert) (recording api) op1 args1 (st, [])")
  have same: "calls (aiAssistantApi (observed convert) (recording api) op args (st1, log1))
      = calls (res1, st1, log1)
        @ calls (aiAssistantApi (observed convert) (recording api) op args (st, []))"
    using
      calls_recorded [OF quiet, where convert = "observed convert" and api = api
        and st = st1 and log = log1]
      calls_recorded [OF quiet, where convert = "observed convert" and api = api
        and st = st and log = "[]"]
    by (simp add: calls_def)
  obtain c where c: "requests op args = [c]"
    and rec: "aiAssistantApi (observed convert) (recording api) op args (st1, log1) =
         (case perform api c st1 of (q, st2) \<Rightarrow> (Inr q, (st2, log1 @ [(c, q)])))"
    using facade_recorded [OF quiet, where convert' = "observed convert" and api = api
        and st = st1 and log = log1]
    by blast
  from c have "calls (aiAssistantApi (observed convert) (recording api) op args (st, [])) = [c]"
    using
      calls_recorded [OF quiet, where convert = "observed convert" and api = api
        and st = st and log = "[]"]
    by simp
  moreover from rec
  have "fst (aiAssistantApi (observed convert) (recording api) op args (st1, log1))
      = Inr (fst (perform api c st1))"
    by (simp split: prod.splits)
  ultimately
  have "\<exists>c. calls (aiAssistantApi (observed convert) (recording api) op args (st, [])) = [c]
        \<and> fst (aiAssistantApi (observed convert) (recording api) op args (st1, log1))
            = Inr (fst (perform api c st1))"
    by blast
  with first same
  show "case aiAssistantApi (observed convert) (recording api) op1 args1 (st, []) of
         (res1, st1, log1) \<Rightarrow>
           calls (aiAssistantApi (observed convert) (recording api) op args (st1, log1))
             = calls (res1, st1, log1)
               @ calls (aiAssistantApi (observed convert) (recording api) op args (st, []))
           \<and> (\<exists>c. calls (aiAssistantApi (observed convert) (recording api) op args (st, []))
                  = [c]
                \<and> fst (aiAssistantApi (observed convert) (recording api) op args (st1, log1))
                    = Inr (fst (perform api c st1)))"
    by simp
qed

theorem facade_keeps_no_state_witness:
  "converts_nothing GetSessions ([] :: (unit, unit) jsval list)
   \<and> calls (aiAssistantApi (observed (plain_object :: (unit, unit, unit, nat) conversion))
        (recording counting) GetSessions ([] :: (unit, unit) jsval list) (0, []))
     = calls (aiAssistantApi (observed (plain_object :: (unit, unit, unit, unit) conversion))
        (recording probe) GetSessions ([] :: (unit, unit) jsval list) ((), []))
   \<and> calls (aiAssistantApi (observed (plain_object :: (unit, unit, unit, nat) conversion))
        (recording counting) GetSessions ([] :: (unit, unit) jsval list)
        (snd (aiAssistantApi (observed (plain_object :: (unit, unit, unit, nat) conversion))
           (recording counting) CreateSession [Str ''u1''] (0, []))))
     = [(POST, [Str ''/services/session/create'', Null,
          Obj [(''params'', Obj [(''user_id'', Str ''u1'')])]]),
        (GET, [Str ''/services/sessions''])]"
proof -
  have quiet: "converts_nothing GetSessions ([] :: (unit, unit) jsval list)"
    by simp
  from facade_keeps_no_state [OF quiet,
      where convert = "plain_object :: (unit, unit, unit, nat) conversion"
        and api = counting and st = 0
        and convert' = "plain_object :: (unit, unit, unit, unit) conversion"
        and api' = probe and st' = "()" and ?op1.0 = CreateSession
        and ?args1.0 = "[Str ''u1'']"]
  show ?thesis
    by (simp add: run_defs counting_def probe_def arg_def returned_def)
qed

text \<open>
  Claim C9, as stated: for every choice of arguments each required parameter is
  defined before dispatch. It fails when an argument is left out or \<open>undefined\<close>: the
  module checks nothing, and \<open>createSession()\<close> dispatches \<open>user_id: undefined\<close>.
\<close>

theorem createSession_without_argument:
  "calls (createSession (recording probe) ([] :: (unit, unit) jsval list) ((), []))
     = [(POST, [Str ''/services/session/create'', Null,
          Obj [(''params'', Obj [(''user_id'', Undefined)])]])]
   \<and> call_params (hd (calls (createSession (recording probe)
         ([] :: (unit, unit) jsval list) ((), [])))) ''user_id'' = Some Undefined"
  by (simp add: run_defs probe_def descriptor_defs)

text \<open>
  Claim C9, amended: for every operation and every choice of arguments, each parameter
  that the table of section 6 lists for the operation is a key of the \<open>params\<close> object
  of every call the invocation makes on the collaborator, and its value is not
  \<open>undefined\<close> whenever every argument the operation declares without a default is
  passed and is not \<open>undefined\<close>; an invocation that converts nothing makes exactly
  one call.
\<close>

theorem required_parameters_present:
  "(converts_nothing op args \<longrightarrow>
      (\<exists>c. calls (aiAssistantApi (observed convert) (recording api) op args (st, [])) = [c]))
   \<and> (\<forall>c \<in> set (calls (aiAssistantApi (observed convert) (recording api) op args (st, []))).
        set (required_parameters op) \<subseteq> dom (call_params c)
        \<and> ((\<forall>i < mandatory_arguments op. arg args i \<noteq> Undefined) \<longrightarrow>
             (\<forall>k \<in> set (required_parameters op). call_params c k \<noteq> Some Undefined)))"
proof
  show "converts_nothing op args \<longrightarrow>
      (\<exists>c. calls (aiAssistantApi (observed convert) (recording api) op args (st, [])) = [c])"
    using one_call_when_nothing_converted [of op args "observed convert" api st] by blast
next
  have "\<forall>c \<in> set (requests op args).
        set (required_parameters op) \<subseteq> dom (call_params c)
        \<and> ((\<forall>i < mandatory_arguments op. arg args i \<noteq> Undefined) \<longrightarrow>
             (\<forall>k \<in> set (required_parameters op). call_params c k \<noteq> Some Undefined))"
    if "op \<noteq> UploadTextbook"
  proof (cases op)
    case SendMessage
    then show ?thesis
      by (simp add: requests_explicit params_explicit default_param_def numeral_3_eq_3
          numeral_2_eq_2 All_less_Suc)
  next
    case GetSessions
    then show ?thesis by (simp add: requests_explicit)
  next
    case CreateSession
    then show ?thesis by (simp add: requests_explicit params_explicit)
  next
    case DeleteSession
    then show ?thesis
      by (simp add: requests_explicit params_explicit numeral_2_eq_2 All_less_Suc)
  next
    case GetRecommendations
    then show ?thesis
      by (simp add: requests_explicit params_explicit default_param_def)
  next
    case GetAutocompleteSuggestions
    then show ?thesis
      by (simp add: requests_explicit params_explicit numeral_2_eq_2 All_less_Suc)
  next
    case UploadTextbook
    with that show ?thesis by simp
  qed
  moreover have "converts_nothing op args" if "op \<noteq> UploadTextbook"
    using that by (cases op) simp_all
  ultimately
  show "\<forall>c \<in> set (calls (aiAssistantApi (observed convert) (recording api) op args (st, []))).
        set (required_parameters op) \<subseteq> dom (call_params c)
        \<and> ((\<forall>i < mandatory_arguments op. arg args i \<noteq> Undefined) \<longrightarrow>
             (\<forall>k \<in> set (required_parameters op). call_params c k \<noteq> Some Undefined))"
    by (cases "op = UploadTextbook") (simp_all add: calls_recorded)
qed

theorem required_parameters_present_witness:
  "converts_nothing DeleteSession [Str ''u1'', Str ''s7'' :: (unit, unit) jsval]
   \<and> calls (aiAssistantApi (observed (plain_object :: (unit, unit, unit, unit) conversion))
       (recording probe) DeleteSession
       [Str ''u1'', Str ''s7'' :: (unit, unit) jsval] ((), []))
     = [(DELETE, [Str ''/services/session/delete'',
          Obj [(''params'', Obj [(''user_id'', Str ''u1''), (''session_id'', Str ''s7'')])]])]
   \<and> arg [Str ''u1'', Str ''s7'' :: (unit, unit) jsval] 0 \<noteq> Undefined
   \<and> arg [Str ''u1'', Str ''s7'' :: (unit, unit) jsval] 1 \<noteq> Undefined
   \<and> call_params (DELETE, [Str ''/services/session/delete'',
          Obj [(''params'', Obj [(''user_id'', Str ''u1''),
            (''session_id'', Str ''s7'' :: (unit, unit) jsval)])]]) ''user_id''
       = Some (Str ''u1'')
   \<and> call_params (DELETE, [Str ''/services/session/delete'',
          Obj [(''params'', Obj [(''user_id'', Str ''u1''),
            (''session_id'', Str ''s7'' :: (unit, unit) jsval)])]]) ''session_id''
       = Some (Str ''s7'')"
  using required_parameters_present
    [of DeleteSession "[Str ''u1'', Str ''s7'' :: (unit, unit) jsval]"
      "plain_object :: (unit, unit, unit, unit) conversion" probe "()"]
  by (simp add: run_defs probe_def descriptor_defs returned_def)

text \<open>
  Claim C10: a call that an invocation makes has a body other than \<open>null\<close>, and a
  \<open>headers\<close> property in its configuration, exactly when the operation is
  \<open>uploadTextbook\<close>; \<open>sendMessage\<close>, \<open>createSession\<close>, \<open>getRecommendations\<close> and
  \<open>getAutocompleteSuggestions\<close> pass three arguments to \<open>post\<close>, the second a literal
  \<open>null\<close> and the third an object whose only property is \<open>params\<close>; \<open>getSessions\<close>
  passes the path alone, with no configuration. Each of these five, and every other
  invocation that converts nothing, makes exactly one call.
\<close>

theorem only_uploadTextbook_has_body_or_headers:
  "(converts_nothing op args \<longrightarrow>
      (\<exists>c. calls (aiAssistantApi (observed convert) (recording api) op args (st, [])) = [c]))
   \<and> (\<forall>c \<in> set (calls (aiAssistantApi (observed convert) (recording api) op args (st, []))).
        ((call_body c \<noteq> Null \<and> call_body c \<noteq> Undefined) = (op = UploadTextbook))
        \<and> ((''headers'' \<in> dom (properties (call_config c))) = (op = UploadTextbook))
        \<and> (op \<in> {SendMessage, CreateSession, GetRecommendations, GetAutocompleteSuggestions}
             \<longrightarrow> call_method c = POST \<and> length (snd c) = 3 \<and> snd c ! 1 = Null
               \<and> dom (properties (call_config c)) = {''params''})
        \<and> (op = GetSessions \<longrightarrow> length (snd c) = 1 \<and> call_config c = Undefined))"
proof
  show "converts_nothing op args \<longrightarrow>
      (\<exists>c. calls (aiAssistantApi (observed convert) (recording api) op args (st, [])) = [c])"
    using one_call_when_nothing_converted [of op args "observed convert" api st] by blast
next
  show "\<forall>c \<in> set (calls (aiAssistantApi (observed convert) (recording api) op args (st, []))).
        ((call_body c \<noteq> Null \<and> call_body c \<noteq> Undefined) = (op = UploadTextbook))
        \<and> ((''headers'' \<in> dom (properties (call_config c))) = (op = UploadTextbook))
        \<and> (op \<in> {SendMessage, CreateSession, GetRecommendations, GetAutocompleteSuggestions}
             \<longrightarrow> call_method c = POST \<and> length (snd c) = 3 \<and> snd c ! 1 = Null
               \<and> dom (properties (call_config c)) = {''params''})
        \<and> (op = GetSessions \<longrightarrow> length (snd c) = 1 \<and> call_config c = Undefined)"
  proof (cases "op = UploadTextbook")
    case True
    have "call_body c \<noteq> Null \<and> call_body c \<noteq> Undefined
        \<and> ''headers'' \<in> dom (properties (call_config c))"
      if "c \<in> set (calls (uploadTextbook (observed convert) (recording api) args (st, [])))"
      for c
      using uploadTextbook_calls [OF that]
      by (auto simp add: call_body_def call_config_def arg_def)
    with True show ?thesis by simp
  next
    case False
    then have "converts_nothing op args"
      by (cases op) simp_all
    then have "calls (aiAssistantApi (observed convert) (recording api) op args (st, []))
        = requests op args"
      by (simp add: calls_recorded)
    with False show ?thesis
      by (cases op)
         (simp_all add: requests_explicit call_body_def call_config_def call_method_def arg_def)
  qed
qed

theorem only_uploadTextbook_has_body_or_headers_witness:
  "calls (aiAssistantApi (observed (plain_object :: (unit, unit, unit, unit) conversion))
       (recording probe) GetSessions ([] :: (unit, unit) jsval list) ((), []))
     = [(GET, [Str ''/services/sessions''])]
   \<and> call_config (GET, [Str ''/services/sessions'' :: (unit, unit) jsval]) = Undefined
   \<and> calls (aiAssistantApi (observed (plain_object :: (unit, unit, unit, unit) conversion))
       (recording probe) CreateSession [Str ''u1'' :: (unit, unit) jsval] ((), []))
     = [(POST, [Str ''/services/session/create'', Null,
          Obj [(''params'', Obj [(''user_id'', Str ''u1'')])]])]"
  using only_uploadTextbook_has_body_or_headers
      [of GetSessions "[] :: (unit, unit) jsval list"
        "plain_object :: (unit, unit, unit, unit) conversion" probe "()"]
    only_uploadTextbook_has_body_or_headers
      [of CreateSession "[Str ''u1'' :: (unit, unit) jsval]"
        "plain_object :: (unit, unit, unit, unit) conversion" probe "()"]
  by (simp add: run_defs probe_def descriptor_defs returned_def)

end
